theory Spec2Isabelle
  imports Main
begin

section \<open>IrisGridProxyModel: data model\<close>

text \<open>
  A shallow embedding of \<^verbatim>\<open>src/packages/iris-grid/src/IrisGridProxyModel.ts\<close>.
  JavaScript objects are identified by a reference number. Backing models live in a
  store (\<open>models\<close>) indexed by their reference; the effects the proxy has on them
  (\<open>close()\<close>, \<open>addEventListener\<close>, \<open>setViewport\<close>) are recorded, and
  the events the proxy dispatches on itself are appended to \<open>dispatched\<close>.
\<close>

type_synonym model_id = nat
type_synonym promise_id = nat

text \<open>A JavaScript array: its reference and its contents. \<^verbatim>\<open>===\<close> and
  \<^verbatim>\<open>!==\<close> on arrays compare the references only.\<close>

type_synonym 'a js_array = "nat \<times> 'a list"

definition same_ref :: "'a js_array \<Rightarrow> 'a js_array \<Rightarrow> bool" where
  "same_ref a b = (fst a = fst b)"

definition js_length :: "'a js_array \<Rightarrow> nat" where
  "js_length a = length (snd a)"

text \<open>The raw data sources \<^verbatim>\<open>DhType.Table | DhType.TreeTable | DhType.PartitionedTable\<close>,
  each with its handle, and the three model classes \<^verbatim>\<open>makeModel\<close> chooses from.\<close>

datatype raw_table = Table nat | TreeTable nat | PartitionedTable nat

datatype variant = IrisGridTableModel | IrisGridTreeTableModel | IrisGridPartitionedTableModel

text \<open>A column is known by its name. What the proxy reads of a backing model: its class,
  its \<open>table\<close>, its \<open>columns\<close> array, whether it passes the capability predicates
  \<^verbatim>\<open>isExpandableGridModel\<close>, \<^verbatim>\<open>isEditableGridModel\<close>,
  \<^verbatim>\<open>isPartitionedGridModelProvider\<close>, and four of its getters.\<close>

record backing =
  variant :: variant
  table :: raw_table
  columns :: "string js_array"
  expandable :: bool
  editable :: bool
  partitionProvider :: bool
  model_isPartitionRequired :: bool
  model_isRollupAvailable :: bool
  model_isSelectDistinctAvailable :: bool
  model_isCustomColumnsAvailable :: bool

datatype rollup_config =
  RollupConfig (groupingColumns: "string list") (includeConstituents: bool)

datatype partition_mode = Keys | Merged | Partition

datatype partition_config =
  PartitionConfig (partitions: "string list") (mode: partition_mode)

type_synonym viewport = "int \<times> int \<times> string js_array option"

text \<open>What a promise is rejected with: the cancelable wrapper's own cancellation error, or
  any other error (its message).\<close>

datatype rejection = CanceledPromiseError | OtherError string

datatype event_type = COLUMNS_CHANGED | TABLE_CHANGED | REQUEST_FAILED | OTHER_EVENT string

datatype detail =
  Columns "string js_array" | TableDetail raw_table | ErrorDetail rejection | Opaque string

type_synonym event = "event_type \<times> detail"

text \<open>The promise a configuration setter hands to \<^verbatim>\<open>setNextModel\<close>: either
  \<^verbatim>\<open>Promise.resolve(this.originalModel)\<close>, or a derivation requested from the
  original model followed by \<^verbatim>\<open>makeModel\<close>.\<close>

datatype derivation =
  Rollup rollup_config
  | PartitionKeysTable
  | PartitionMergedTable
  | PartitionTable "string list"
  | SelectDistinct "string list"

datatype model_source = ResolveOriginal | Derive derivation

text \<open>A cancelable promise: the promise it wraps, whether it has been canceled, whether
  the wrapped promise has settled, the state of the wrapper itself as a JavaScript promise,
  and whether the callback the proxy attached to it has run.\<close>

datatype wrapper_state = Unsettled | Fulfilled model_id | Rejected rejection

record cancelable =
  source :: model_source
  hasCanceled :: bool
  answered :: bool
  wrapped :: wrapper_state
  reacted :: bool

record world =
  originalModel :: model_id
  model :: model_id
  modelPromise :: "promise_id option"
  rollup :: "rollup_config option"
  partitionCfg :: "partition_config option"
  selectDistinct :: "string js_array"
  currentViewport :: "viewport option"
  listenerCount :: nat
  models :: "model_id \<Rightarrow> backing"
  nextModel :: model_id
  closeCalls :: "model_id \<Rightarrow> nat"
  listeners :: "model_id set"
  viewportCalls :: "(model_id \<times> viewport) list"
  promises :: "promise_id \<Rightarrow> cancelable"
  nextPromise :: promise_id
  dispatched :: "event list"

section \<open>Collaborators\<close>

text \<open>\<^verbatim>\<open>makeModel\<close> (lines 42-55): the class follows the kind of the table; every
  other property of the constructed model is the environment's (\<open>props\<close>).\<close>

definition makeModel :: "raw_table \<Rightarrow> backing \<Rightarrow> backing" where
  "makeModel t props =
     (case t of
        TreeTable _ \<Rightarrow> props\<lparr>variant := IrisGridTreeTableModel, table := t\<rparr>
      | PartitionedTable _ \<Rightarrow> props\<lparr>variant := IrisGridPartitionedTableModel, table := t\<rparr>
      | Table _ \<Rightarrow> props\<lparr>variant := IrisGridTableModel, table := t\<rparr>)"

text \<open>Modelled from the spec: \<^verbatim>\<open>isIrisGridTableModelTemplate\<close> is imported from
  \<^verbatim>\<open>./IrisGridTableModelTemplate\<close>, which is not among the sources. The spec calls
  the capability TableBacked: it "exposes the single concrete data-source handle
  (absent for tree-backed models)", and the model factory builds a "flat table-backed
  model" for a source that is neither hierarchical nor partitioned.\<close>

definition isIrisGridTableModelTemplate :: "backing \<Rightarrow> bool" where
  "isIrisGridTableModelTemplate b = (variant b = IrisGridTableModel)"

text \<open>\<^verbatim>\<open>fast-deep-equal\<close>: structural equality of values.\<close>

definition deepEqual :: "'a \<Rightarrow> 'a \<Rightarrow> bool" where
  "deepEqual a b = (a = b)"

text \<open>\<^verbatim>\<open>PromiseUtils.isCanceled\<close>.\<close>

definition isCanceled :: "rejection \<Rightarrow> bool" where
  "isCanceled err = (err = CanceledPromiseError)"

definition closeModel :: "model_id \<Rightarrow> world \<Rightarrow> world" where
  "closeModel m w = w\<lparr>closeCalls := (closeCalls w)(m := Suc (closeCalls w m))\<rparr>"

definition modelSetViewport :: "model_id \<Rightarrow> viewport \<Rightarrow> world \<Rightarrow> world" where
  "modelSetViewport m vp w = w\<lparr>viewportCalls := viewportCalls w @ [(m, vp)]\<rparr>"

definition dispatchEvent :: "event \<Rightarrow> world \<Rightarrow> world" where
  "dispatchEvent e w = w\<lparr>dispatched := dispatched w @ [e]\<rparr>"

text \<open>A new model object gets a fresh reference.\<close>

definition newModel :: "backing \<Rightarrow> world \<Rightarrow> model_id \<times> world" where
  "newModel b w =
     (nextModel w, w\<lparr>models := (models w)(nextModel w := b), nextModel := Suc (nextModel w)\<rparr>)"

section \<open>The proxy\<close>

text \<open>The constructor (lines 89-107).\<close>

definition init :: "raw_table \<Rightarrow> backing \<Rightarrow> world" where
  "init t props =
     \<lparr>originalModel = 0, model = 0, modelPromise = None, rollup = None,
      partitionCfg = None, selectDistinct = (0, []), currentViewport = None,
      listenerCount = 0, models = (\<lambda>_. makeModel t props), nextModel = 1,
      closeCalls = (\<lambda>_. 0), listeners = {}, viewportCalls = [],
      promises = (\<lambda>_. \<lparr>source = ResolveOriginal, hasCanceled = False, answered = False,
                         wrapped = Unsettled, reacted = False\<rparr>),
      nextPromise = 0, dispatched = []\<rparr>"

definition activeModel :: "world \<Rightarrow> backing" where
  "activeModel w = models w (model w)"

definition original :: "world \<Rightarrow> backing" where
  "original w = models w (originalModel w)"

text \<open>\<^verbatim>\<open>addListeners\<close>, \<^verbatim>\<open>removeListeners\<close> (lines 212-228): the one handler
  \<^verbatim>\<open>handleModelEvent\<close> is registered for, or removed from, every event name, so a
  model either has it or has it not; \<open>listeners\<close> is the set of models that have it.
  Registering it twice on one model registers it once, and removing it where it is not
  registered does nothing, as for any DOM event target.\<close>

definition addListeners :: "model_id \<Rightarrow> world \<Rightarrow> world" where
  "addListeners m w = w\<lparr>listeners := insert m (listeners w)\<rparr>"

definition removeListeners :: "model_id \<Rightarrow> world \<Rightarrow> world" where
  "removeListeners m w = w\<lparr>listeners := listeners w - {m}\<rparr>"

definition handleModelEvent :: "event \<Rightarrow> world \<Rightarrow> world" where
  "handleModelEvent ev w = dispatchEvent (fst ev, snd ev) w"

definition startListening :: "world \<Rightarrow> world" where
  "startListening w = addListeners (model w) w"

definition stopListening :: "world \<Rightarrow> world" where
  "stopListening w = removeListeners (model w) w"

text \<open>\<^verbatim>\<open>setModel\<close> (lines 126-161).\<close>

definition setModel :: "model_id \<Rightarrow> world \<Rightarrow> world" where
  "setModel m w =
     (let oldModel = model w;
          oldColumns = columns (models w oldModel);
          w1 = (if oldModel \<noteq> originalModel w then closeModel oldModel w else w);
          w2 = w1\<lparr>model := m\<rparr>;
          w3 = (if listenerCount w2 > 0 then addListeners m w2 else w2);
          w4 = (if \<not> same_ref oldColumns (columns (models w3 m))
                then dispatchEvent (COLUMNS_CHANGED, Columns (columns (models w3 m))) w3
                else (case currentViewport w3 of
                        Some vp \<Rightarrow> modelSetViewport m vp w3
                      | None \<Rightarrow> w3))
      in if isIrisGridTableModelTemplate (models w4 m)
         then dispatchEvent (TABLE_CHANGED, TableDetail (table (models w4 m))) w4
         else w4)"

text \<open>The two callbacks \<^verbatim>\<open>setNextModel\<close> attaches to the cancelable promise
  (lines 178-197).\<close>

definition onFulfilled :: "model_id \<Rightarrow> world \<Rightarrow> world" where
  "onFulfilled m w = setModel m (w\<lparr>modelPromise := None\<rparr>)"

definition onRejected :: "rejection \<Rightarrow> world \<Rightarrow> world" where
  "onRejected err w =
     (if isCanceled err then w
      else dispatchEvent (REQUEST_FAILED, ErrorDetail err) (w\<lparr>modelPromise := None\<rparr>))"

text \<open>Modelled from the spec: \<^verbatim>\<open>PromiseUtils.makeCancelable\<close> and the
  \<^verbatim>\<open>cancel\<close> of the promise it returns come from \<^verbatim>\<open>@deephaven/utils\<close>, which
  is not among the sources. The spec (Cancelable Transition): cancellation is idempotent;
  after it the result of the underlying operation, if that still completes, has the
  disposal callback invoked and does not propagate as an update; the disposal callback
  fires exactly once, whether cancellation comes before or after the underlying operation
  completes; the failure callback tells "canceled" from a genuine error. So cancelling a
  wrapper that has not settled rejects it with the cancellation error, and cancelling one
  that is already fulfilled disposes of its model. What no wrapper can do is take back a
  callback of a promise that has already settled: the wrapper is a JavaScript promise, and
  the callbacks attached to it with \<^verbatim>\<open>then\<close> and \<^verbatim>\<open>catch\<close> run once it has
  settled, on a later turn of the microtask queue (\<open>react\<close> below).\<close>

definition makeCancelable :: "model_source \<Rightarrow> world \<Rightarrow> promise_id \<times> world" where
  "makeCancelable src w =
     (nextPromise w,
      w\<lparr>promises := (promises w)(nextPromise w :=
           \<lparr>source = src, hasCanceled = False, answered = False, wrapped = Unsettled,
            reacted = False\<rparr>),
        nextPromise := Suc (nextPromise w)\<rparr>)"

definition cancel :: "promise_id \<Rightarrow> world \<Rightarrow> world" where
  "cancel p w =
     (let c = promises w p in
      if hasCanceled c then w
      else
        (case wrapped c of
           Unsettled \<Rightarrow>
             w\<lparr>promises := (promises w)(p :=
                  c\<lparr>hasCanceled := True, wrapped := Rejected CanceledPromiseError\<rparr>)\<rparr>
         | Fulfilled m \<Rightarrow>
             closeModel m (w\<lparr>promises := (promises w)(p := c\<lparr>hasCanceled := True\<rparr>)\<rparr>)
         | Rejected e \<Rightarrow>
             w\<lparr>promises := (promises w)(p := c\<lparr>hasCanceled := True\<rparr>)\<rparr>))"

text \<open>\<^verbatim>\<open>setNextModel\<close> (lines 163-198). The disposal callback it registers is
  \<^verbatim>\<open>model => model.close()\<close>; \<open>cancel\<close> above and \<open>settle\<close> below apply
  it. The two callbacks it attaches are \<open>onFulfilled\<close> and \<open>onRejected\<close>; \<open>react\<close>
  runs them.\<close>

definition setNextModel :: "model_source \<Rightarrow> world \<Rightarrow> world" where
  "setNextModel src w =
     (let w1 = (case modelPromise w of Some p \<Rightarrow> cancel p w | None \<Rightarrow> w);
          w2 = (if listenerCount w1 > 0 then removeListeners (model w1) w1 else w1);
          (p, w3) = makeCancelable src w2
      in w3\<lparr>modelPromise := Some p\<rparr>)"

text \<open>What the environment answers to a derivation: the derived table together with the
  properties of the model built over it, or a failure.\<close>

datatype outcome = Built raw_table backing | Broke string

text \<open>The promise that transition \<open>p\<close> wraps settles, and the wrapper takes the
  result (see \<open>makeCancelable\<close>). \<^verbatim>\<open>Promise.resolve(this.originalModel)\<close> can only
  fulfil, with the original model; a derivation fulfils with the model
  \<^verbatim>\<open>makeModel\<close> constructs, or rejects. A canceled wrapper disposes of a model it
  receives and drops an error; one that is not canceled is fulfilled or rejected with what
  it receives. A promise settles once: a second answer for the same \<open>p\<close>, or one for a
  promise never made, is ignored.\<close>

definition resolveWith :: "promise_id \<Rightarrow> model_id \<Rightarrow> world \<Rightarrow> world" where
  "resolveWith p m w =
     (let c = promises w p in
      if hasCanceled c then closeModel m w
      else if wrapped c = Unsettled
      then w\<lparr>promises := (promises w)(p := c\<lparr>wrapped := Fulfilled m\<rparr>)\<rparr>
      else w)"

definition rejectWith :: "promise_id \<Rightarrow> rejection \<Rightarrow> world \<Rightarrow> world" where
  "rejectWith p err w =
     (let c = promises w p in
      if wrapped c = Unsettled
      then w\<lparr>promises := (promises w)(p := c\<lparr>wrapped := Rejected err\<rparr>)\<rparr>
      else w)"

definition settle :: "promise_id \<Rightarrow> outcome \<Rightarrow> world \<Rightarrow> world" where
  "settle p out w =
     (if p \<ge> nextPromise w \<or> answered (promises w p) then w
      else
        let c = promises w p;
            w1 = w\<lparr>promises := (promises w)(p := c\<lparr>answered := True\<rparr>)\<rparr>
        in case source c of
             ResolveOriginal \<Rightarrow> resolveWith p (originalModel w1) w1
           | Derive d \<Rightarrow>
               (case out of
                  Built t props \<Rightarrow>
                    (let (m, w2) = newModel (makeModel t props) w1 in resolveWith p m w2)
                | Broke e \<Rightarrow> rejectWith p (OtherError e) w1))"

text \<open>The callback the proxy attached to wrapper \<open>p\<close> (lines 178-197) runs: the
  \<^verbatim>\<open>then\<close> callback if the wrapper is fulfilled, the \<^verbatim>\<open>catch\<close> callback if it
  is rejected. It runs once, and only after the wrapper has settled. Nothing in it looks
  at whether the wrapper has been canceled in the meantime, or at what the slot holds.\<close>

definition react :: "promise_id \<Rightarrow> world \<Rightarrow> world" where
  "react p w =
     (let c = promises w p in
      if p \<ge> nextPromise w \<or> reacted c then w
      else
        (case wrapped c of
           Unsettled \<Rightarrow> w
         | Fulfilled m \<Rightarrow>
             onFulfilled m (w\<lparr>promises := (promises w)(p := c\<lparr>reacted := True\<rparr>)\<rparr>)
         | Rejected err \<Rightarrow>
             onRejected err (w\<lparr>promises := (promises w)(p := c\<lparr>reacted := True\<rparr>)\<rparr>)))"

text \<open>\<^verbatim>\<open>close\<close> (lines 109-117).\<close>

definition close :: "world \<Rightarrow> world" where
  "close w =
     (let w1 = closeModel (originalModel w) w;
          w2 = (if model w1 \<noteq> originalModel w1 then closeModel (model w1) w1 else w1)
      in case modelPromise w2 of Some p \<Rightarrow> cancel p w2 | None \<Rightarrow> w2)"

subsection \<open>Availability getters\<close>

definition isRollupAvailable :: "world \<Rightarrow> bool" where
  "isRollupAvailable w =
     ((model_isRollupAvailable (original w) \<or> rollup w \<noteq> None)
      \<and> js_length (selectDistinct w) = 0)"

definition isSelectDistinctAvailable :: "world \<Rightarrow> bool" where
  "isSelectDistinctAvailable w =
     ((model_isSelectDistinctAvailable (original w) \<or> js_length (selectDistinct w) > 0)
      \<and> rollup w = None)"

definition selectDistinctColumns :: "world \<Rightarrow> string js_array" where
  "selectDistinctColumns w = selectDistinct w"

definition isCustomColumnsAvailable :: "world \<Rightarrow> bool" where
  "isCustomColumnsAvailable w =
     (model_isCustomColumnsAvailable (activeModel w)
      \<and> \<not> (isSelectDistinctAvailable w \<and> js_length (selectDistinctColumns w) > 0))"

definition isPartitionRequired :: "world \<Rightarrow> bool" where
  "isPartitionRequired w =
     (if partitionProvider (original w) then model_isPartitionRequired (original w)
      else False)"

definition originalColumns :: "world \<Rightarrow> string js_array" where
  "originalColumns w = columns (original w)"

subsection \<open>Configuration setters\<close>

text \<open>A setter throws (\<open>Inl\<close> the message) or returns with the state it leaves.\<close>

definition set_rollupConfig :: "rollup_config option \<Rightarrow> world \<Rightarrow> string + world" where
  "set_rollupConfig rollupConfig w =
     (if \<not> isRollupAvailable w then Inl ''Rollup Rows are not available''
      else if deepEqual rollupConfig (rollup w) then Inr w
      else
        let w1 = w\<lparr>rollup := rollupConfig\<rparr>;
            src = (case rollupConfig of
                     Some cfg \<Rightarrow>
                       if isIrisGridTableModelTemplate (original w1) then Derive (Rollup cfg)
                       else ResolveOriginal
                   | None \<Rightarrow> ResolveOriginal)
        in Inr (setNextModel src w1))"

definition set_partitionConfig :: "partition_config option \<Rightarrow> world \<Rightarrow> string + world" where
  "set_partitionConfig partitionConfig w =
     (if \<not> isPartitionRequired w then Inl ''Partitions are not available''
      else
        let w1 = w\<lparr>partitionCfg := partitionConfig\<rparr>;
            src = (case partitionConfig of
                     Some cfg \<Rightarrow>
                       if partitionProvider (original w1) then
                         (case mode cfg of
                            Keys \<Rightarrow> Derive PartitionKeysTable
                          | Merged \<Rightarrow> Derive PartitionMergedTable
                          | Partition \<Rightarrow> Derive (PartitionTable (partitions cfg)))
                       else ResolveOriginal
                   | None \<Rightarrow> ResolveOriginal)
        in Inr (setNextModel src w1))"

definition set_selectDistinctColumns :: "string js_array \<Rightarrow> world \<Rightarrow> string + world" where
  "set_selectDistinctColumns columnNames w =
     (if \<not> isSelectDistinctAvailable w then Inl ''Select distinct is not available''
      else if same_ref columnNames (selectDistinctColumns w)
              \<or> (js_length columnNames = 0 \<and> js_length (selectDistinctColumns w) = 0)
      then Inr w
      else
        let w1 = w\<lparr>selectDistinct := columnNames\<rparr>;
            found = map (\<lambda>name. find (\<lambda>column. column = name) (snd (originalColumns w1)))
                        (snd columnNames);
            cols = map the (filter (\<lambda>column. column \<noteq> None) found);
            src = (if isIrisGridTableModelTemplate (original w1) \<and> length cols > 0
                   then Derive (SelectDistinct cols) else ResolveOriginal)
        in Inr (setNextModel src w1))"

text \<open>\<^verbatim>\<open>setViewport\<close> (lines 741-748).\<close>

definition setViewport :: "int \<Rightarrow> int \<Rightarrow> string js_array option \<Rightarrow> world \<Rightarrow> world" where
  "setViewport vtop vbottom cols w =
     (let w1 = w\<lparr>currentViewport := Some (vtop, vbottom, cols)\<rparr>
      in modelSetViewport (model w1) (vtop, vbottom, cols) w1)"

subsection \<open>Listener count\<close>

text \<open>Modelled from the spec: the proxy's own \<^verbatim>\<open>addEventListener\<close> and
  \<^verbatim>\<open>removeEventListener\<close> are inherited from \<^verbatim>\<open>IrisGridModel\<close>, which is
  not among the sources. The spec: the proxy keeps a "listener registration count, used
  to decide whether to (de)register against the active model", and is subscribed "while
  the Proxy has at least one listener". So the first listener starts listening and the
  removal of the last one stops it. \<^verbatim>\<open>super.startListening()\<close> and
  \<^verbatim>\<open>super.stopListening()\<close> are taken to do nothing more.\<close>

definition addEventListener :: "world \<Rightarrow> world" where
  "addEventListener w =
     (let w1 = w\<lparr>listenerCount := Suc (listenerCount w)\<rparr>
      in if listenerCount w1 = 1 then startListening w1 else w1)"

definition removeEventListener :: "world \<Rightarrow> world" where
  "removeEventListener w =
     (if listenerCount w = 0 then w
      else
        let w1 = w\<lparr>listenerCount := listenerCount w - 1\<rparr>
        in if listenerCount w1 = 0 then stopListening w1 else w1)"

text \<open>A backing model emits an event: the proxy hears it if its handler is registered
  on that model.\<close>

definition modelEmits :: "model_id \<Rightarrow> event \<Rightarrow> world \<Rightarrow> world" where
  "modelEmits m ev w = (if m \<in> listeners w then handleModelEvent ev w else w)"

subsection \<open>Optional capabilities\<close>

text \<open>What a call on the proxy comes to: it is handed to the active model, or the proxy
  answers itself with a value, a thrown error, a rejected promise or a promise resolved
  with nothing. None of these operations assigns a field of the proxy.\<close>

datatype js_value = Bool bool | Num int | Str string

datatype call_result =
  Delegated model_id
  | Returned js_value
  | Thrown string
  | PromiseRejected string
  | PromiseResolved

definition isRowExpandable :: "world \<Rightarrow> call_result" where
  "isRowExpandable w =
     (if expandable (activeModel w) then Delegated (model w) else Returned (Bool False))"

definition isRowExpanded :: "world \<Rightarrow> call_result" where
  "isRowExpanded w =
     (if expandable (activeModel w) then Delegated (model w) else Returned (Bool False))"

definition setRowExpanded :: "world \<Rightarrow> call_result" where
  "setRowExpanded w =
     (if expandable (activeModel w) then Delegated (model w)
      else Thrown ''Function setRowExpanded does not exist on IrisGridTableModel'')"

definition expandAll :: "world \<Rightarrow> call_result" where
  "expandAll w =
     (if expandable (activeModel w) then Delegated (model w)
      else Thrown ''Function expandAll does not exist on IrisGridTableModel'')"

definition collapseAll :: "world \<Rightarrow> call_result" where
  "collapseAll w =
     (if expandable (activeModel w) then Delegated (model w)
      else Thrown ''Function collapseAll does not exist on IrisGridTableModel'')"

definition depthForRow :: "world \<Rightarrow> call_result" where
  "depthForRow w =
     (if expandable (activeModel w) then Delegated (model w) else Returned (Num 0))"

definition editValueForCell :: "world \<Rightarrow> call_result" where
  "editValueForCell w =
     (if editable (activeModel w) then Delegated (model w) else Returned (Str []))"

definition setValueForCell :: "world \<Rightarrow> call_result" where
  "setValueForCell w =
     (if editable (activeModel w) then Delegated (model w)
      else PromiseRejected ''Model is not editable'')"

definition setValueForRanges :: "world \<Rightarrow> call_result" where
  "setValueForRanges w =
     (if editable (activeModel w) then Delegated (model w)
      else PromiseRejected ''Model is not editable'')"

definition setValues :: "world \<Rightarrow> call_result" where
  "setValues w =
     (if editable (activeModel w) then Delegated (model w) else PromiseResolved)"

definition isValidForCell :: "world \<Rightarrow> call_result" where
  "isValidForCell w =
     (if editable (activeModel w) then Delegated (model w) else Returned (Bool False))"

section \<open>Runs\<close>

text \<open>Everything that can happen to a proxy, one step at a time: a call from its user,
  an event of a backing model, the answer to a derivation, or the run of a callback that a
  settled promise has queued. JavaScript runs each of them to completion before the next,
  and other code can run between the settling of a promise and its callback. A setter
  that throws leaves the state as it was.\<close>

datatype action =
  SetRollupConfig "rollup_config option"
  | SetPartitionConfig "partition_config option"
  | SetSelectDistinctColumns "string js_array"
  | SetViewport int int "string js_array option"
  | AddEventListener
  | RemoveEventListener
  | ModelEmits model_id event
  | Settle promise_id outcome
  | React promise_id
  | Close

definition returned :: "world \<Rightarrow> string + world \<Rightarrow> world" where
  "returned w r = (case r of Inl _ \<Rightarrow> w | Inr w' \<Rightarrow> w')"

fun step :: "action \<Rightarrow> world \<Rightarrow> world" where
  "step (SetRollupConfig c) w = returned w (set_rollupConfig c w)"
| "step (SetPartitionConfig c) w = returned w (set_partitionConfig c w)"
| "step (SetSelectDistinctColumns c) w = returned w (set_selectDistinctColumns c w)"
| "step (SetViewport t b c) w = setViewport t b c w"
| "step AddEventListener w = addEventListener w"
| "step RemoveEventListener w = removeEventListener w"
| "step (ModelEmits m ev) w = modelEmits m ev w"
| "step (Settle p out) w = settle p out w"
| "step (React p) w = react p w"
| "step Close w = close w"

fun run :: "action list \<Rightarrow> world \<Rightarrow> world" where
  "run [] w = w"
| "run (a # as) w = run as (step a w)"

text \<open>A transition is pending from the moment it is issued until it is canceled or its
  callback has run.\<close>

definition pending :: "world \<Rightarrow> promise_id \<Rightarrow> bool" where
  "pending w p =
     (p < nextPromise w \<and> \<not> hasCanceled (promises w p) \<and> \<not> reacted (promises w p))"

section \<open>Notions the properties are stated with\<close>

text \<open>The events dispatched, and the viewport calls made, between two states.\<close>

definition emitted :: "world \<Rightarrow> world \<Rightarrow> event list" where
  "emitted w w' = drop (length (dispatched w)) (dispatched w')"

definition ofType :: "event_type \<Rightarrow> event list \<Rightarrow> event list" where
  "ofType ty evs = filter (\<lambda>e. fst e = ty) evs"

definition viewportCallsSince :: "world \<Rightarrow> world \<Rightarrow> (model_id \<times> viewport) list" where
  "viewportCallsSince w w' = drop (length (viewportCalls w)) (viewportCalls w')"

text \<open>The callback of promise \<open>p\<close> can no longer do anything: it has run, or it will
  run with the cancellation error.\<close>

definition harmless :: "world \<Rightarrow> promise_id \<Rightarrow> bool" where
  "harmless w p =
     (reacted (promises w p) \<or> wrapped (promises w p) = Rejected CanceledPromiseError)"

text \<open>The pending-transition slot holds nothing but the promise made last, and the
  callback of every promise that is canceled or not in the slot is harmless.\<close>

definition slot_invariant :: "world \<Rightarrow> bool" where
  "slot_invariant w =
     ((\<forall>p. modelPromise w = Some p \<longrightarrow> Suc p = nextPromise w) \<and>
      (\<forall>p<nextPromise w. modelPromise w \<noteq> Some p \<or> hasCanceled (promises w p) \<longrightarrow>
          harmless w p))"

text \<open>The proxy has a listener, and its handler is registered on no model while the
  slot holds a promise, and on the active model alone while the slot is empty.\<close>

definition relay_ok :: "world \<Rightarrow> bool" where
  "relay_ok w =
     (listenerCount w > 0 \<and>
      (modelPromise w = None \<longrightarrow> listeners w = {model w}) \<and>
      (modelPromise w \<noteq> None \<longrightarrow> listeners w = {}))"

text \<open>The step is the failure callback of a derivation that failed.\<close>

fun derivationFails :: "action \<Rightarrow> world \<Rightarrow> bool" where
  "derivationFails (React p) w =
     (p < nextPromise w \<and> \<not> reacted (promises w p) \<and>
      (case wrapped (promises w p) of
         Rejected err \<Rightarrow> \<not> isCanceled err
       | _ \<Rightarrow> False))"
| "derivationFails _ w = False"

text \<open>The promise in the slot has settled and its callback has not yet run.\<close>

definition inWindow :: "world \<Rightarrow> bool" where
  "inWindow w =
     (case modelPromise w of
        None \<Rightarrow> False
      | Some p \<Rightarrow>
          \<not> reacted (promises w p) \<and>
          (case wrapped (promises w p) of
             Unsettled \<Rightarrow> False
           | Fulfilled m \<Rightarrow> True
           | Rejected err \<Rightarrow> \<not> isCanceled err))"

text \<open>The calls that cancel the promise in the slot: the three setters and
  \<^verbatim>\<open>close\<close>.\<close>

fun cancels :: "action \<Rightarrow> bool" where
  "cancels (SetRollupConfig c) = True"
| "cancels (SetPartitionConfig c) = True"
| "cancels (SetSelectDistinctColumns c) = True"
| "cancels Close = True"
| "cancels _ = False"

text \<open>Along the steps \<open>as\<close> from \<open>w\<close> no setter and no \<^verbatim>\<open>close\<close> is called
  between the settling of the promise in the slot and the run of its callback.\<close>

fun orderly :: "action list \<Rightarrow> world \<Rightarrow> bool" where
  "orderly [] w = True"
| "orderly (a # as) w = (\<not> (cancels a \<and> inWindow w) \<and> orderly as (step a w))"

text \<open>Along the steps \<open>as\<close> from \<open>w\<close> the proxy never loses its last listener, no
  derivation fails, and no setter and no \<^verbatim>\<open>close\<close> is called between the settling of
  the promise in the slot and the run of its callback.\<close>

fun steady :: "action list \<Rightarrow> world \<Rightarrow> bool" where
  "steady [] w = True"
| "steady (a # as) w =
     (0 < listenerCount (step a w) \<and> \<not> derivationFails a w \<and>
      \<not> (cancels a \<and> inWindow w) \<and> steady as (step a w))"

subsection \<open>Example models\<close>

text \<open>A flat table model passes \<^verbatim>\<open>isEditableGridModel\<close> (its \<^verbatim>\<open>isEditable\<close>
  getter, lines 699-701, says whether it can be edited) and is not expandable; a tree
  model is expandable; a partitioned model is a partition provider and does not pass
  \<^verbatim>\<open>isEditableGridModel\<close>.\<close>

definition flatProps :: backing where
  "flatProps =
     \<lparr>variant = IrisGridTableModel, table = Table 0, columns = (10, [''A'', ''B'']),
      expandable = False, editable = True, partitionProvider = False,
      model_isPartitionRequired = False, model_isRollupAvailable = True,
      model_isSelectDistinctAvailable = True, model_isCustomColumnsAvailable = True\<rparr>"

definition treeProps :: backing where
  "treeProps = flatProps\<lparr>columns := (11, [''A'', ''Count'']), expandable := True\<rparr>"

definition partitionedProps :: backing where
  "partitionedProps =
     flatProps\<lparr>editable := False, partitionProvider := True,
       model_isPartitionRequired := True, model_isRollupAvailable := False,
       model_isSelectDistinctAvailable := False\<rparr>"

definition byA :: rollup_config where
  "byA = RollupConfig [''A''] False"

definition byB :: rollup_config where
  "byB = RollupConfig [''B''] False"

definition year2024 :: partition_config where
  "year2024 = PartitionConfig [''2024''] Partition"

subsection \<open>Example states\<close>

text \<open>A proxy over a flat table: after one rollup request; after two requests issued
  without waiting; with one listener; with a viewport and a pending rollup; with select
  distinct on column A. A proxy over a partitioned table with a partition chosen. And a
  proxy over a flat table whose first rollup has been answered, with a second rollup
  requested before the callback of the first has run.\<close>

definition oneRollup :: world where
  "oneRollup = run [SetRollupConfig (Some byA)] (init (Table 1) flatProps)"

definition twoRollups :: world where
  "twoRollups =
     run [SetRollupConfig (Some byA), SetRollupConfig (Some byB)] (init (Table 1) flatProps)"

definition listening :: world where
  "listening = run [AddEventListener] (init (Table 1) flatProps)"

definition scrolled :: world where
  "scrolled = run [SetViewport 5 50 None, SetRollupConfig (Some byA)] (init (Table 1) flatProps)"

definition distinctA :: world where
  "distinctA = run [SetSelectDistinctColumns (1, [''A''])] (init (Table 1) flatProps)"

definition partitioned :: world where
  "partitioned =
     run [SetPartitionConfig (Some year2024)] (init (PartitionedTable 1) partitionedProps)"

definition overtaken :: world where
  "overtaken =
     run [SetRollupConfig (Some byA), Settle 0 (Built (TreeTable 2) treeProps),
          SetRollupConfig (Some byB)] (init (Table 1) flatProps)"

text \<open>The state in which \<^verbatim>\<open>makeModel\<close> has just built a model over table \<open>t\<close>
  and \<^verbatim>\<open>setModel\<close> has not yet run.\<close>

definition built :: "raw_table \<Rightarrow> backing \<Rightarrow> world \<Rightarrow> world" where
  "built t props w = snd (newModel (makeModel t props) w)"


section \<open>What each operation leaves alone\<close>

lemmas effect_defs = closeModel_def dispatchEvent_def modelSetViewport_def addListeners_def
  removeListeners_def handleModelEvent_def startListening_def stopListening_def

lemmas proxy_defs = effect_defs setModel_def onFulfilled_def onRejected_def isCanceled_def
  makeCancelable_def cancel_def setNextModel_def resolveWith_def rejectWith_def settle_def
  react_def close_def
  newModel_def makeModel_def isIrisGridTableModelTemplate_def deepEqual_def same_ref_def
  js_length_def init_def activeModel_def original_def isRollupAvailable_def
  isSelectDistinctAvailable_def selectDistinctColumns_def isCustomColumnsAvailable_def
  isPartitionRequired_def originalColumns_def set_rollupConfig_def set_partitionConfig_def
  set_selectDistinctColumns_def setViewport_def addEventListener_def removeEventListener_def
  modelEmits_def returned_def pending_def inWindow_def

lemmas example_defs = flatProps_def treeProps_def partitionedProps_def byA_def byB_def
  year2024_def built_def

lemmas state_defs = oneRollup_def twoRollups_def listening_def scrolled_def distinctA_def
  partitioned_def overtaken_def

lemmas eval_defs = proxy_defs example_defs Let_def

lemma setModel_fields [simp]:
  "modelPromise (setModel m w) = modelPromise w"
  "promises (setModel m w) = promises w"
  "nextPromise (setModel m w) = nextPromise w"
  "model (setModel m w) = m"
  "listenerCount (setModel m w) = listenerCount w"
  "listeners (setModel m w) = (if 0 < listenerCount w then insert m (listeners w) else listeners w)"
  "currentViewport (setModel m w) = currentViewport w"
  by (simp_all add: setModel_def Let_def effect_defs split: option.splits)

lemma cancel_fields [simp]:
  "modelPromise (cancel p w) = modelPromise w"
  "nextPromise (cancel p w) = nextPromise w"
  "model (cancel p w) = model w"
  "dispatched (cancel p w) = dispatched w"
  "listeners (cancel p w) = listeners w"
  "listenerCount (cancel p w) = listenerCount w"
  "currentViewport (cancel p w) = currentViewport w"
  "rollup (cancel p w) = rollup w"
  "selectDistinct (cancel p w) = selectDistinct w"
  "partitionCfg (cancel p w) = partitionCfg w"
  by (simp_all add: cancel_def closeModel_def Let_def split: wrapper_state.splits)

lemma cancel_promises:
  "hasCanceled (promises (cancel p w) q) = (hasCanceled (promises w q) \<or> q = p)"
  "reacted (promises (cancel p w) q) = reacted (promises w q)"
  "harmless (cancel p w) q =
     (harmless w q \<or>
      (q = p \<and> \<not> hasCanceled (promises w p) \<and> wrapped (promises w p) = Unsettled))"
  by (auto simp: cancel_def harmless_def closeModel_def Let_def split: wrapper_state.splits)

lemma setNextModel_fields [simp]:
  "modelPromise (setNextModel src w) = Some (nextPromise w)"
  "nextPromise (setNextModel src w) = Suc (nextPromise w)"
  "model (setNextModel src w) = model w"
  "dispatched (setNextModel src w) = dispatched w"
  "listenerCount (setNextModel src w) = listenerCount w"
  "rollup (setNextModel src w) = rollup w"
  "selectDistinct (setNextModel src w) = selectDistinct w"
  "currentViewport (setNextModel src w) = currentViewport w"
  "listeners (setNextModel src w) =
     (if 0 < listenerCount w then listeners w - {model w} else listeners w)"
  by (simp_all add: setNextModel_def makeCancelable_def removeListeners_def Let_def
      split: option.splits)

lemma setNextModel_partitionCfg:
  "partitionCfg (setNextModel src w) = partitionCfg w"
  by (simp add: setNextModel_def makeCancelable_def removeListeners_def Let_def
      split: option.splits)

lemma setNextModel_promises:
  "promises (setNextModel src w) =
     (case modelPromise w of
        None \<Rightarrow> promises w
      | Some p \<Rightarrow> promises (cancel p w))
     (nextPromise w := \<lparr>source = src, hasCanceled = False, answered = False,
                        wrapped = Unsettled, reacted = False\<rparr>)"
  by (simp add: setNextModel_def makeCancelable_def removeListeners_def Let_def
      split: option.splits)

lemma harmless_promises: "promises w' = promises w \<Longrightarrow> harmless w' q = harmless w q"
  by (simp add: harmless_def)

lemma harmless_upd:
  "q \<noteq> n \<Longrightarrow> promises w' = (promises w)(n := c) \<Longrightarrow> harmless w' q = harmless w q"
  by (simp add: harmless_def)

lemma setNextModel_old_promises:
  assumes "q \<noteq> nextPromise w"
  shows "harmless (setNextModel src w) q =
           (harmless w q \<or>
            (modelPromise w = Some q \<and> \<not> hasCanceled (promises w q)
               \<and> wrapped (promises w q) = Unsettled))"
    and "hasCanceled (promises (setNextModel src w) q) =
           (hasCanceled (promises w q) \<or> modelPromise w = Some q)"
proof -
  show "harmless (setNextModel src w) q =
           (harmless w q \<or>
            (modelPromise w = Some q \<and> \<not> hasCanceled (promises w q)
               \<and> wrapped (promises w q) = Unsettled))"
  proof (cases "modelPromise w")
    case None
    with assms show ?thesis by (simp add: harmless_def setNextModel_promises)
  next
    case (Some p)
    with assms have "harmless (setNextModel src w) q = harmless (cancel p w) q"
      by (simp add: harmless_def setNextModel_promises)
    with Some show ?thesis by (auto simp: cancel_promises)
  qed
  show "hasCanceled (promises (setNextModel src w) q) =
           (hasCanceled (promises w q) \<or> modelPromise w = Some q)"
    using assms by (auto simp: setNextModel_promises cancel_promises split: option.splits)
qed

lemma setNextModel_new_promise:
  "\<not> hasCanceled (promises (setNextModel src w) (nextPromise w))"
  "\<not> reacted (promises (setNextModel src w) (nextPromise w))"
  "wrapped (promises (setNextModel src w) (nextPromise w)) = Unsettled"
  "source (promises (setNextModel src w) (nextPromise w)) = src"
  by (simp_all add: setNextModel_promises)

lemma resolveWith_fields [simp]:
  "modelPromise (resolveWith p m w) = modelPromise w"
  "nextPromise (resolveWith p m w) = nextPromise w"
  "model (resolveWith p m w) = model w"
  "dispatched (resolveWith p m w) = dispatched w"
  "listeners (resolveWith p m w) = listeners w"
  "listenerCount (resolveWith p m w) = listenerCount w"
  "currentViewport (resolveWith p m w) = currentViewport w"
  by (simp_all add: resolveWith_def closeModel_def Let_def)

lemma rejectWith_fields [simp]:
  "modelPromise (rejectWith p e w) = modelPromise w"
  "nextPromise (rejectWith p e w) = nextPromise w"
  "model (rejectWith p e w) = model w"
  "dispatched (rejectWith p e w) = dispatched w"
  "listeners (rejectWith p e w) = listeners w"
  "listenerCount (rejectWith p e w) = listenerCount w"
  "currentViewport (rejectWith p e w) = currentViewport w"
  by (simp_all add: rejectWith_def Let_def)

lemma settle_fields [simp]:
  "modelPromise (settle p out w) = modelPromise w"
  "nextPromise (settle p out w) = nextPromise w"
  "model (settle p out w) = model w"
  "dispatched (settle p out w) = dispatched w"
  "listeners (settle p out w) = listeners w"
  "listenerCount (settle p out w) = listenerCount w"
  "currentViewport (settle p out w) = currentViewport w"
  by (simp_all add: settle_def newModel_def Let_def split: model_source.splits outcome.splits)

lemma settle_promises:
  "hasCanceled (promises (settle p out w) q) = hasCanceled (promises w q)"
  "reacted (promises (settle p out w) q) = reacted (promises w q)"
  "harmless w q \<Longrightarrow> harmless (settle p out w) q"
  by (auto simp: settle_def resolveWith_def rejectWith_def newModel_def closeModel_def
      harmless_def Let_def split: model_source.splits outcome.splits)

lemma react_fields [simp]:
  "nextPromise (react p w) = nextPromise w"
  "listenerCount (react p w) = listenerCount w"
  "currentViewport (react p w) = currentViewport w"
  by (simp_all add: react_def onFulfilled_def onRejected_def dispatchEvent_def Let_def
      split: wrapper_state.splits)

lemma react_promises:
  "hasCanceled (promises (react p w) q) = hasCanceled (promises w q)"
  "wrapped (promises (react p w) q) = wrapped (promises w q)"
  "reacted (promises w q) \<Longrightarrow> reacted (promises (react p w) q)"
  "harmless w q \<Longrightarrow> harmless (react p w) q"
  by (auto simp: react_def onFulfilled_def onRejected_def dispatchEvent_def harmless_def Let_def
      split: wrapper_state.splits)

lemma react_harmless:
  assumes "harmless w p"
  shows "modelPromise (react p w) = modelPromise w" "model (react p w) = model w"
    "dispatched (react p w) = dispatched w" "listeners (react p w) = listeners w"
  using assms
  by (auto simp: react_def harmless_def onRejected_def isCanceled_def Let_def
      split: wrapper_state.splits)

lemma react_idle:
  "p \<ge> nextPromise w \<or> wrapped (promises w p) = Unsettled \<Longrightarrow> react p w = w"
  by (auto simp: react_def Let_def)

lemma react_takes_effect:
  assumes "\<not> harmless w p" "p < nextPromise w" "wrapped (promises w p) \<noteq> Unsettled"
  shows "modelPromise (react p w) = None" "reacted (promises (react p w) p)"
  using assms
  by (auto simp: react_def harmless_def onFulfilled_def onRejected_def isCanceled_def
      dispatchEvent_def Let_def split: wrapper_state.splits)

lemma react_fulfilled:
  assumes "\<not> reacted (promises w p)" "p < nextPromise w" "wrapped (promises w p) = Fulfilled m"
  shows "model (react p w) = m"
    "listeners (react p w) = (if 0 < listenerCount w then insert m (listeners w) else listeners w)"
  using assms by (simp_all add: react_def onFulfilled_def Let_def)

lemma close_fields [simp]:
  "modelPromise (close w) = modelPromise w"
  "nextPromise (close w) = nextPromise w"
  "model (close w) = model w"
  "listeners (close w) = listeners w"
  "listenerCount (close w) = listenerCount w"
  "currentViewport (close w) = currentViewport w"
  "dispatched (close w) = dispatched w"
  by (simp_all add: close_def closeModel_def Let_def split: option.splits)

lemma closeModel_fields [simp]:
  "modelPromise (closeModel v w) = modelPromise w"
  "promises (closeModel v w) = promises w"
  "model (closeModel v w) = model w"
  "originalModel (closeModel v w) = originalModel w"
  "harmless (closeModel v w) q = harmless w q"
  by (simp_all add: closeModel_def harmless_def)

lemma close_promises:
  "harmless (close w) q =
     (harmless w q \<or>
      (modelPromise w = Some q \<and> \<not> hasCanceled (promises w q)
         \<and> wrapped (promises w q) = Unsettled))"
  "hasCanceled (promises (close w) q) = (hasCanceled (promises w q) \<or> modelPromise w = Some q)"
  by (auto simp: close_def Let_def cancel_promises split: option.splits)

lemma step_currentViewport:
  "currentViewport (step a w) =
     (case a of SetViewport t b c \<Rightarrow> Some (t, b, c) | _ \<Rightarrow> currentViewport w)"
  by (cases a)
     (simp_all add: returned_def set_rollupConfig_def set_partitionConfig_def
        set_selectDistinctColumns_def Let_def setViewport_def addEventListener_def
        removeEventListener_def modelEmits_def effect_defs)

section \<open>The slot while no call falls between a settling and its callback\<close>

lemma slot_invariant_init: "slot_invariant (init t props)"
  by (simp add: slot_invariant_def init_def)

lemma slot_invariant_updates [simp]:
  "slot_invariant (w\<lparr>rollup := r\<rparr>) = slot_invariant w"
  "slot_invariant (w\<lparr>partitionCfg := pc\<rparr>) = slot_invariant w"
  "slot_invariant (w\<lparr>selectDistinct := sd\<rparr>) = slot_invariant w"
  "slot_invariant (w\<lparr>currentViewport := v\<rparr>) = slot_invariant w"
  "slot_invariant (w\<lparr>listenerCount := n\<rparr>) = slot_invariant w"
  "slot_invariant (w\<lparr>listeners := l\<rparr>) = slot_invariant w"
  "slot_invariant (w\<lparr>viewportCalls := vc\<rparr>) = slot_invariant w"
  "slot_invariant (w\<lparr>dispatched := d\<rparr>) = slot_invariant w"
  "slot_invariant (w\<lparr>closeCalls := cc\<rparr>) = slot_invariant w"
  by (simp_all add: slot_invariant_def harmless_def)

lemma inWindow_updates [simp]:
  "inWindow (w\<lparr>rollup := r\<rparr>) = inWindow w"
  "inWindow (w\<lparr>partitionCfg := pc\<rparr>) = inWindow w"
  "inWindow (w\<lparr>selectDistinct := sd\<rparr>) = inWindow w"
  by (simp_all add: inWindow_def split: option.splits wrapper_state.splits)

lemma not_inWindow:
  "\<not> inWindow w \<Longrightarrow> modelPromise w = Some p \<Longrightarrow>
     harmless w p \<or> wrapped (promises w p) = Unsettled"
  by (auto simp: inWindow_def harmless_def isCanceled_def split: wrapper_state.splits)

lemma slot_invariant_setNextModel:
  assumes inv: "slot_invariant w" and nw: "\<not> inWindow w"
  shows "slot_invariant (setNextModel src w)"
  unfolding slot_invariant_def
proof (intro conjI allI impI)
  fix p assume "modelPromise (setNextModel src w) = Some p"
  then show "Suc p = nextPromise (setNextModel src w)" by simp
next
  fix q
  assume q: "q < nextPromise (setNextModel src w)"
    and c: "modelPromise (setNextModel src w) \<noteq> Some q
            \<or> hasCanceled (promises (setNextModel src w) q)"
  from c have ne: "q \<noteq> nextPromise w" by (auto simp: setNextModel_new_promise)
  with q have lt: "q < nextPromise w" by simp
  show "harmless (setNextModel src w) q"
  proof (cases "modelPromise w = Some q \<and> \<not> hasCanceled (promises w q)")
    case True
    with nw have "harmless w q \<or> wrapped (promises w q) = Unsettled" by (simp add: not_inWindow)
    with True ne show ?thesis by (auto simp: setNextModel_old_promises)
  next
    case False
    with inv lt have "harmless w q" unfolding slot_invariant_def by blast
    with ne show ?thesis by (simp add: setNextModel_old_promises)
  qed
qed

lemma slot_invariant_settle: "slot_invariant w \<Longrightarrow> slot_invariant (settle p out w)"
  unfolding slot_invariant_def by (simp add: settle_promises)

lemma slot_invariant_react:
  assumes inv: "slot_invariant w"
  shows "slot_invariant (react p w)"
proof (cases "harmless w p \<or> p \<ge> nextPromise w \<or> wrapped (promises w p) = Unsettled")
  case True
  then have "modelPromise (react p w) = modelPromise w"
    using react_harmless(1) react_idle by (metis)
  with inv show ?thesis
    unfolding slot_invariant_def by (simp add: react_promises)
next
  case False
  then have eff: "modelPromise (react p w) = None" "reacted (promises (react p w) p)"
    by (simp_all add: react_takes_effect)
  from False inv have slot: "modelPromise w = Some p"
    unfolding slot_invariant_def by (metis not_le_imp_less)
  show ?thesis
    unfolding slot_invariant_def
  proof (intro conjI allI impI)
    fix q assume "modelPromise (react p w) = Some q"
    with eff show "Suc q = nextPromise (react p w)" by simp
  next
    fix q assume q: "q < nextPromise (react p w)"
    show "harmless (react p w) q"
    proof (cases "q = p")
      case True
      with eff show ?thesis by (simp add: harmless_def)
    next
      case False
      with slot have "modelPromise w \<noteq> Some q" by simp
      with inv q have "harmless w q" unfolding slot_invariant_def by simp
      then show ?thesis by (simp add: react_promises)
    qed
  qed
qed

lemma slot_invariant_close:
  assumes inv: "slot_invariant w" and nw: "\<not> inWindow w"
  shows "slot_invariant (close w)"
  unfolding slot_invariant_def
proof (intro conjI allI impI)
  fix p assume "modelPromise (close w) = Some p"
  with inv show "Suc p = nextPromise (close w)" unfolding slot_invariant_def by simp
next
  fix q
  assume q: "q < nextPromise (close w)"
    and c: "modelPromise (close w) \<noteq> Some q \<or> hasCanceled (promises (close w) q)"
  show "harmless (close w) q"
  proof (cases "modelPromise w = Some q \<and> \<not> hasCanceled (promises w q)")
    case True
    with nw have "harmless w q \<or> wrapped (promises w q) = Unsettled" by (simp add: not_inWindow)
    with True show ?thesis by (auto simp: close_promises)
  next
    case False
    with c have "modelPromise w \<noteq> Some q \<or> hasCanceled (promises w q)"
      by (auto simp: close_promises)
    with inv q have "harmless w q" unfolding slot_invariant_def by simp
    then show ?thesis by (simp add: close_promises)
  qed
qed

lemma slot_invariant_step:
  "slot_invariant w \<Longrightarrow> \<not> (cancels a \<and> inWindow w) \<Longrightarrow> slot_invariant (step a w)"
  by (cases a)
     (simp_all add: returned_def set_rollupConfig_def set_partitionConfig_def
        set_selectDistinctColumns_def Let_def slot_invariant_setNextModel slot_invariant_settle
        slot_invariant_react slot_invariant_close setViewport_def addEventListener_def
        removeEventListener_def modelEmits_def effect_defs)

lemma slot_invariant_run:
  "slot_invariant w \<Longrightarrow> orderly acts w \<Longrightarrow> slot_invariant (run acts w)"
  by (induction acts arbitrary: w) (simp_all add: slot_invariant_step)

lemma steady_orderly: "steady acts w \<Longrightarrow> orderly acts w"
  by (induction acts arbitrary: w) simp_all

section \<open>What a swap dispatches\<close>

lemma setModel_dispatched:
  "dispatched (setModel m w) =
     dispatched w
     @ (if same_ref (columns (activeModel w)) (columns (models w m)) then []
        else [(COLUMNS_CHANGED, Columns (columns (models w m)))])
     @ (if variant (models w m) = IrisGridTableModel
        then [(TABLE_CHANGED, TableDetail (table (models w m)))] else [])"
  by (simp add: setModel_def Let_def effect_defs activeModel_def isIrisGridTableModelTemplate_def
      split: option.splits)

lemma setModel_viewportCalls:
  "viewportCalls (setModel m w) =
     viewportCalls w
     @ (if same_ref (columns (activeModel w)) (columns (models w m))
        then (case currentViewport w of Some vp \<Rightarrow> [(m, vp)] | None \<Rightarrow> [])
        else [])"
  by (simp add: setModel_def Let_def effect_defs activeModel_def isIrisGridTableModelTemplate_def
      split: option.splits)

lemma onRejected_failure:
  "\<not> isCanceled err \<Longrightarrow>
     modelPromise (onRejected err w) = None \<and>
     dispatched (onRejected err w) = dispatched w @ [(REQUEST_FAILED, ErrorDetail err)] \<and>
     model (onRejected err w) = model w"
  by (simp add: onRejected_def dispatchEvent_def)

section \<open>The relay while a transition is pending\<close>

lemma relay_ok_updates [simp]:
  "relay_ok (w\<lparr>rollup := r\<rparr>) = relay_ok w"
  "relay_ok (w\<lparr>partitionCfg := pc\<rparr>) = relay_ok w"
  "relay_ok (w\<lparr>selectDistinct := sd\<rparr>) = relay_ok w"
  by (simp_all add: relay_ok_def)

lemma relay_ok_setNextModel:
  "relay_ok w \<Longrightarrow> relay_ok (setNextModel src w)"
  by (auto simp: relay_ok_def)

lemma relay_ok_settle: "relay_ok (settle p out w) = relay_ok w"
  by (simp add: relay_ok_def)

lemma relay_ok_close: "relay_ok (close w) = relay_ok w"
  by (simp add: relay_ok_def)

lemma relay_ok_react:
  assumes inv: "slot_invariant w" and ok: "relay_ok w"
    and nf: "\<not> derivationFails (React p) w"
  shows "relay_ok (react p w)"
proof (cases "harmless w p \<or> p \<ge> nextPromise w \<or> wrapped (promises w p) = Unsettled")
  case True
  then have "modelPromise (react p w) = modelPromise w" "model (react p w) = model w"
    "listeners (react p w) = listeners w"
    using react_harmless react_idle by metis+
  with ok show ?thesis by (simp add: relay_ok_def)
next
  case False
  then have lt: "p < nextPromise w" and nr: "\<not> reacted (promises w p)"
    and ns: "wrapped (promises w p) \<noteq> Unsettled"
    and nc: "wrapped (promises w p) \<noteq> Rejected CanceledPromiseError"
    by (simp_all add: harmless_def)
  from False inv lt have slot: "modelPromise w = Some p"
    unfolding slot_invariant_def by blast
  with ok have quiet: "listeners w = {}" "0 < listenerCount w" by (simp_all add: relay_ok_def)
  from nf lt nr ns nc obtain m where m: "wrapped (promises w p) = Fulfilled m"
    by (cases "wrapped (promises w p)") (auto simp: isCanceled_def)
  from False lt ns have "modelPromise (react p w) = None" by (simp add: react_takes_effect)
  moreover from nr lt m quiet have "model (react p w) = m" "listeners (react p w) = {m}"
    by (simp_all add: react_fulfilled)
  ultimately show ?thesis using quiet by (simp add: relay_ok_def)
qed

lemma relay_ok_step:
  "slot_invariant w \<Longrightarrow> relay_ok w \<Longrightarrow> 0 < listenerCount (step a w) \<Longrightarrow>
     \<not> derivationFails a w \<Longrightarrow> relay_ok (step a w)"
proof -
  assume inv: "slot_invariant w" and ok: "relay_ok w"
    and pos: "0 < listenerCount (step a w)" and nf: "\<not> derivationFails a w"
  show ?thesis
  proof (cases a)
    case (SetRollupConfig c)
    with ok show ?thesis
      by (simp add: returned_def set_rollupConfig_def Let_def relay_ok_setNextModel)
  next
    case (SetPartitionConfig c)
    with ok show ?thesis
      by (simp add: returned_def set_partitionConfig_def Let_def relay_ok_setNextModel)
  next
    case (SetSelectDistinctColumns c)
    with ok show ?thesis
      by (simp add: returned_def set_selectDistinctColumns_def Let_def relay_ok_setNextModel)
  next
    case (SetViewport vt vb c)
    with ok show ?thesis
      by (simp add: relay_ok_def setViewport_def modelSetViewport_def)
  next
    case AddEventListener
    with ok show ?thesis
      by (simp add: relay_ok_def addEventListener_def Let_def)
  next
    case RemoveEventListener
    with ok pos show ?thesis
      by (auto simp: relay_ok_def removeEventListener_def Let_def stopListening_def
          removeListeners_def split: if_splits)
  next
    case (ModelEmits m ev)
    with ok show ?thesis
      by (simp add: relay_ok_def modelEmits_def handleModelEvent_def dispatchEvent_def)
  next
    case (Settle p out)
    with ok show ?thesis by (simp add: relay_ok_settle)
  next
    case (React p)
    with inv ok nf show ?thesis by (simp add: relay_ok_react)
  next
    case Close
    with ok show ?thesis by (simp add: relay_ok_close)
  qed
qed

lemma relay_ok_run:
  "slot_invariant w \<Longrightarrow> relay_ok w \<Longrightarrow> steady bs w \<Longrightarrow> relay_ok (run bs w)"
proof (induction bs arbitrary: w)
  case Nil
  then show ?case by simp
next
  case (Cons a bs)
  from Cons.prems have "relay_ok (step a w)" by (simp add: relay_ok_step)
  moreover from Cons.prems have "slot_invariant (step a w)" by (simp add: slot_invariant_step)
  moreover from Cons.prems have "steady bs (step a w)" by simp
  ultimately show ?case using Cons.IH by simp
qed

section \<open>The properties\<close>

text \<open>C1. The first rollup has been answered and its callback is queued when the second
  rollup is requested. The second request cancels the first promise and puts its own in
  the slot, but the queued callback of the first still runs: it empties the slot and
  installs the model built for the first, superseded request. The second transition is
  then pending with the slot empty, so a third request cancels nothing and two
  transitions are pending at once; and when the third is answered before the second, the
  active model ends as the one built for the second request, not for the last.\<close>

theorem stale_callback_installs_superseded_model:
  "source (promises overtaken 0) = Derive (Rollup byA) \<and>
   hasCanceled (promises overtaken 0) \<and>
   rollup overtaken = Some byB \<and> modelPromise overtaken = Some 1 \<and>
   pending overtaken 1 \<and> model overtaken = 0 \<and>
   modelPromise (run [React 0] overtaken) = None \<and>
   pending (run [React 0] overtaken) 1 \<and>
   model (run [React 0] overtaken) = 1 \<and>
   table (activeModel (run [React 0] overtaken)) = TreeTable 2 \<and>
   pending (run [React 0, SetRollupConfig (Some byA)] overtaken) 1 \<and>
   pending (run [React 0, SetRollupConfig (Some byA)] overtaken) 2 \<and>
   rollup (run [React 0, SetRollupConfig (Some byA),
                Settle 2 (Built (TreeTable 4) treeProps), React 2,
                Settle 1 (Built (TreeTable 3) treeProps), React 1] overtaken) = Some byA \<and>
   source (promises (run [React 0, SetRollupConfig (Some byA)] overtaken) 1)
     = Derive (Rollup byB) \<and>
   table (activeModel (run [React 0, SetRollupConfig (Some byA),
                Settle 2 (Built (TreeTable 4) treeProps), React 2,
                Settle 1 (Built (TreeTable 3) treeProps), React 1] overtaken)) = TreeTable 3"
  by (simp add: state_defs eval_defs)

text \<open>C2, as the claim states it, fails: setting a partition configuration equal to the
  stored one starts a second transition, and so does setting select-distinct columns to
  another array with the same contents.\<close>

theorem deep_equal_setters_counterexample:
  "deepEqual (Some year2024) (partitionCfg partitioned) \<and>
   nextPromise partitioned = 1 \<and>
   nextPromise (step (SetPartitionConfig (Some year2024)) partitioned) = 2 \<and>
   modelPromise (step (SetPartitionConfig (Some year2024)) partitioned) = Some 1 \<and>
   deepEqual [''A''] (snd (selectDistinct distinctA)) \<and>
   nextPromise distinctA = 1 \<and>
   nextPromise (step (SetSelectDistinctColumns (2, [''A''])) distinctA) = 2 \<and>
   modelPromise (step (SetSelectDistinctColumns (2, [''A''])) distinctA) = Some 1"
  by (simp add: state_defs eval_defs)

lemma set_partitionConfig_starts_transition:
  "isPartitionRequired w \<Longrightarrow>
     partitionCfg (step (SetPartitionConfig pc) w) = pc \<and>
     modelPromise (step (SetPartitionConfig pc) w) = Some (nextPromise w) \<and>
     nextPromise (step (SetPartitionConfig pc) w) = Suc (nextPromise w)"
  by (simp add: returned_def set_partitionConfig_def Let_def setNextModel_partitionCfg)

text \<open>C2, amended. Setting \<^verbatim>\<open>rollupConfig\<close> to a value deep-equal to the stored one
  changes nothing at all (no transition, no event). Setting
  \<^verbatim>\<open>selectDistinctColumns\<close> changes nothing when the array is the stored array itself
  or both are empty; in every other permitted call the array is recorded and a new
  transition starts, whether or not its contents equal the stored ones. Nothing of the
  kind is stated for \<^verbatim>\<open>partitionConfig\<close>, whose setter compares nothing.\<close>

theorem equal_configuration_setters:
  "(deepEqual c (rollup w) \<longrightarrow> step (SetRollupConfig c) w = w) \<and>
   (same_ref names (selectDistinct w)
      \<or> (js_length names = 0 \<and> js_length (selectDistinct w) = 0) \<longrightarrow>
      step (SetSelectDistinctColumns names) w = w) \<and>
   (isSelectDistinctAvailable w \<and> \<not> same_ref names (selectDistinct w)
      \<and> \<not> (js_length names = 0 \<and> js_length (selectDistinct w) = 0) \<longrightarrow>
      selectDistinct (step (SetSelectDistinctColumns names) w) = names \<and>
      modelPromise (step (SetSelectDistinctColumns names) w) = Some (nextPromise w) \<and>
      nextPromise (step (SetSelectDistinctColumns names) w) = Suc (nextPromise w))"
proof -
  have r: "deepEqual c (rollup w) \<longrightarrow> step (SetRollupConfig c) w = w"
    by (simp add: returned_def set_rollupConfig_def)
  have s1: "same_ref names (selectDistinct w)
      \<or> (js_length names = 0 \<and> js_length (selectDistinct w) = 0) \<longrightarrow>
      step (SetSelectDistinctColumns names) w = w"
    by (auto simp: returned_def set_selectDistinctColumns_def selectDistinctColumns_def)
  have s2: "isSelectDistinctAvailable w \<and> \<not> same_ref names (selectDistinct w)
      \<and> \<not> (js_length names = 0 \<and> js_length (selectDistinct w) = 0) \<longrightarrow>
      selectDistinct (step (SetSelectDistinctColumns names) w) = names \<and>
      modelPromise (step (SetSelectDistinctColumns names) w) = Some (nextPromise w) \<and>
      nextPromise (step (SetSelectDistinctColumns names) w) = Suc (nextPromise w)"
    by (simp add: returned_def set_selectDistinctColumns_def selectDistinctColumns_def Let_def)
  show ?thesis by (intro conjI r s1 s2)
qed

text \<open>Setting the second rollup again, or the stored select-distinct array again, changes
  nothing; another array naming the same column starts a second transition.\<close>

theorem equal_configuration_setters_witness:
  "step (SetRollupConfig (Some byB)) twoRollups = twoRollups \<and>
   step (SetSelectDistinctColumns (1, [''A''])) distinctA = distinctA \<and>
   selectDistinct (step (SetSelectDistinctColumns (2, [''A''])) distinctA) = (2, [''A'']) \<and>
   nextPromise (step (SetSelectDistinctColumns (2, [''A''])) distinctA) = 2"
proof -
  have a: "deepEqual (Some byB) (rollup twoRollups)"
    by (simp add: state_defs eval_defs)
  have b: "same_ref (1, [''A'']) (selectDistinct distinctA)"
    by (simp add: state_defs eval_defs)
  have c: "isSelectDistinctAvailable distinctA \<and> \<not> same_ref (2, [''A'']) (selectDistinct distinctA)
      \<and> \<not> (js_length (2::nat, [''A'']) = 0 \<and> js_length (selectDistinct distinctA) = 0)"
    "nextPromise distinctA = 1"
    by (simp_all add: state_defs eval_defs)
  show ?thesis
    using a b c
      equal_configuration_setters [where c = "Some byB" and w = twoRollups]
      equal_configuration_setters [where names = "(1, [''A''])" and w = distinctA]
      equal_configuration_setters [where names = "(2, [''A''])" and w = distinctA]
    by simp
qed

text \<open>C3. The failure half holds (\<open>onRejected_failure\<close>). The cancellation half does
  not: a transition that is canceled after its promise has been answered, and before its
  callback has run, still runs that callback, which dispatches a columns-changed event
  and replaces the active model.\<close>

theorem canceled_transition_still_dispatches:
  "hasCanceled (promises overtaken 0) \<and>
   \<not> pending overtaken 0 \<and>
   model overtaken = 0 \<and>
   emitted overtaken (step (React 0) overtaken)
     = [(COLUMNS_CHANGED, Columns (11, [''A'', ''Count'']))] \<and>
   model (step (React 0) overtaken) = 1"
  by (simp add: state_defs eval_defs emitted_def)

text \<open>C4. In every state of the proxy, reachable or not, \<^verbatim>\<open>isRollupAvailable\<close> is false
  when the stored select-distinct list is non-empty and
  \<^verbatim>\<open>isSelectDistinctAvailable\<close> is false when a rollup configuration is stored, so
  the two are never both true once either is set; and neither setter touches the other's
  stored configuration.\<close>

theorem rollup_selectDistinct_exclusive:
  "(js_length (selectDistinct w) > 0 \<longrightarrow> \<not> isRollupAvailable w) \<and>
   (rollup w \<noteq> None \<longrightarrow> \<not> isSelectDistinctAvailable w) \<and>
   (rollup w \<noteq> None \<or> js_length (selectDistinct w) > 0 \<longrightarrow>
      \<not> (isRollupAvailable w \<and> isSelectDistinctAvailable w)) \<and>
   selectDistinct (step (SetRollupConfig c) w) = selectDistinct w \<and>
   rollup (step (SetSelectDistinctColumns names) w) = rollup w"
  by (auto simp: isRollupAvailable_def isSelectDistinctAvailable_def returned_def
      set_rollupConfig_def set_selectDistinctColumns_def Let_def)

theorem rollup_selectDistinct_exclusive_witness:
  "rollup oneRollup \<noteq> None \<and> \<not> isSelectDistinctAvailable oneRollup \<and>
   js_length (selectDistinct distinctA) > 0 \<and> \<not> isRollupAvailable distinctA \<and>
   rollup distinctA = None \<and> selectDistinct oneRollup = (0, [])"
proof -
  have a: "rollup oneRollup \<noteq> None" "selectDistinct oneRollup = (0, [])"
    by (simp_all add: state_defs eval_defs)
  have b: "js_length (selectDistinct distinctA) > 0" "rollup distinctA = None"
    by (simp_all add: state_defs eval_defs)
  show ?thesis
    using a b rollup_selectDistinct_exclusive [where w = oneRollup]
      rollup_selectDistinct_exclusive [where w = distinctA]
    by simp
qed

text \<open>C5 (swap reconciliation). When \<^verbatim>\<open>setModel\<close> installs model \<open>m\<close>: if its
  columns array is not the old model's array, exactly one columns-changed event is
  dispatched, carrying the new columns, and no viewport call is made; if it is the same
  array, no columns-changed event is dispatched and, when a viewport is stored, exactly
  one \<^verbatim>\<open>setViewport\<close> call with the stored arguments is made on \<open>m\<close>. The stored
  viewport is the one requested last: only \<^verbatim>\<open>setViewport\<close> changes it.\<close>

theorem swap_reconciliation:
  "(\<not> same_ref (columns (activeModel w)) (columns (models w m)) \<longrightarrow>
      ofType COLUMNS_CHANGED (emitted w (setModel m w))
        = [(COLUMNS_CHANGED, Columns (columns (models w m)))] \<and>
      viewportCallsSince w (setModel m w) = []) \<and>
   (same_ref (columns (activeModel w)) (columns (models w m)) \<longrightarrow>
      ofType COLUMNS_CHANGED (emitted w (setModel m w)) = [] \<and>
      viewportCallsSince w (setModel m w)
        = (case currentViewport w of Some vp \<Rightarrow> [(m, vp)] | None \<Rightarrow> [])) \<and>
   currentViewport (step a w)
     = (case a of SetViewport t b c \<Rightarrow> Some (t, b, c) | _ \<Rightarrow> currentViewport w)"
  by (simp add: setModel_dispatched setModel_viewportCalls emitted_def viewportCallsSince_def
      ofType_def step_currentViewport)

text \<open>With the viewport set to rows 5 to 50 and a rollup pending: a new model with the
  same columns array gets the one call \<^verbatim>\<open>setViewport(5, 50, undefined)\<close> and no
  columns-changed event; one with another columns array gets the event and no call.\<close>

theorem swap_reconciliation_witness:
  "ofType COLUMNS_CHANGED
     (emitted (built (TreeTable 2) flatProps scrolled)
        (setModel 1 (built (TreeTable 2) flatProps scrolled))) = [] \<and>
   viewportCallsSince (built (TreeTable 2) flatProps scrolled)
     (setModel 1 (built (TreeTable 2) flatProps scrolled)) = [(1, (5, 50, None))] \<and>
   ofType COLUMNS_CHANGED
     (emitted (built (TreeTable 2) treeProps scrolled)
        (setModel 1 (built (TreeTable 2) treeProps scrolled)))
     = [(COLUMNS_CHANGED, Columns (11, [''A'', ''Count'']))] \<and>
   viewportCallsSince (built (TreeTable 2) treeProps scrolled)
     (setModel 1 (built (TreeTable 2) treeProps scrolled)) = [] \<and>
   viewportCalls (run [Settle 0 (Built (TreeTable 2) flatProps), React 0] scrolled)
     = [(0, (5, 50, None)), (1, (5, 50, None))]"
proof -
  have a: "same_ref (columns (activeModel (built (TreeTable 2) flatProps scrolled)))
             (columns (models (built (TreeTable 2) flatProps scrolled) 1))"
    "currentViewport (built (TreeTable 2) flatProps scrolled) = Some (5, 50, None)"
    by (simp_all add: state_defs eval_defs)
  have b: "\<not> same_ref (columns (activeModel (built (TreeTable 2) treeProps scrolled)))
             (columns (models (built (TreeTable 2) treeProps scrolled) 1))"
    "columns (models (built (TreeTable 2) treeProps scrolled) 1) = (11, [''A'', ''Count''])"
    by (simp_all add: state_defs eval_defs)
  have c: "viewportCalls (run [Settle 0 (Built (TreeTable 2) flatProps), React 0] scrolled)
     = [(0, (5, 50, None)), (1, (5, 50, None))]"
    by (simp add: state_defs eval_defs)
  show ?thesis
    using a b c
      swap_reconciliation [where w = "built (TreeTable 2) flatProps scrolled" and m = 1]
      swap_reconciliation [where w = "built (TreeTable 2) treeProps scrolled" and m = 1]
    by simp
qed

text \<open>C6. When \<^verbatim>\<open>setModel\<close> installs model \<open>m\<close>, a table-changed event is dispatched
  if and only if \<open>m\<close> is table-backed, and then exactly one, carrying the table of
  \<open>m\<close>; for a tree-backed model none is dispatched, and a model built over a tree table
  is tree-backed.\<close>

theorem table_changed_iff_table_backed:
  "ofType TABLE_CHANGED (emitted w (setModel m w)) =
     (if isIrisGridTableModelTemplate (models w m)
      then [(TABLE_CHANGED, TableDetail (table (models w m)))] else []) \<and>
   (variant (models w m) = IrisGridTreeTableModel \<longrightarrow>
      ofType TABLE_CHANGED (emitted w (setModel m w)) = []) \<and>
   variant (makeModel (TreeTable h) props) = IrisGridTreeTableModel \<and>
   \<not> isIrisGridTableModelTemplate (makeModel (TreeTable h) props)"
  by (simp add: setModel_dispatched emitted_def ofType_def makeModel_def
      isIrisGridTableModelTemplate_def)

theorem table_changed_iff_table_backed_witness:
  "ofType TABLE_CHANGED
     (emitted (built (TreeTable 2) treeProps oneRollup)
        (setModel 1 (built (TreeTable 2) treeProps oneRollup))) = [] \<and>
   ofType TABLE_CHANGED
     (emitted (built (Table 7) flatProps oneRollup)
        (setModel 1 (built (Table 7) flatProps oneRollup)))
     = [(TABLE_CHANGED, TableDetail (Table 7))] \<and>
   dispatched (run [Settle 0 (Built (TreeTable 2) treeProps), React 0] oneRollup)
     = [(COLUMNS_CHANGED, Columns (11, [''A'', ''Count'']))]"
proof -
  have a: "variant (models (built (TreeTable 2) treeProps oneRollup) 1) = IrisGridTreeTableModel"
    "\<not> isIrisGridTableModelTemplate (models (built (TreeTable 2) treeProps oneRollup) 1)"
    by (simp_all add: state_defs eval_defs)
  have b: "isIrisGridTableModelTemplate (models (built (Table 7) flatProps oneRollup) 1)"
    "table (models (built (Table 7) flatProps oneRollup) 1) = Table 7"
    by (simp_all add: state_defs eval_defs)
  have c: "dispatched (run [Settle 0 (Built (TreeTable 2) treeProps), React 0] oneRollup)
     = [(COLUMNS_CHANGED, Columns (11, [''A'', ''Count'']))]"
    by (simp add: state_defs eval_defs)
  show ?thesis
    using a b c
      table_changed_iff_table_backed [where w = "built (TreeTable 2) treeProps oneRollup" and m = 1]
      table_changed_iff_table_backed [where w = "built (Table 7) flatProps oneRollup" and m = 1]
    by simp
qed

text \<open>C7, as the claim states it, fails twice. With a listener registered, issuing a
  rollup leaves the proxy subscribed to no model at all while the transition is pending.
  And when the first listener is added while a transition is pending, the completed swap
  leaves the proxy subscribed to both the old model and the new one.\<close>

theorem relay_atomicity_counterexample:
  "listenerCount (run [SetRollupConfig (Some byA)] listening) = 1 \<and>
   pending (run [SetRollupConfig (Some byA)] listening) 0 \<and>
   model (run [SetRollupConfig (Some byA)] listening) = 0 \<and>
   listeners (run [SetRollupConfig (Some byA)] listening) = {} \<and>
   listeners (run [SetRollupConfig (Some byA), Settle 0 (Built (TreeTable 2) treeProps)]
                listening) = {} \<and>
   model (run [SetRollupConfig (Some byA), AddEventListener,
               Settle 0 (Built (TreeTable 2) treeProps), React 0]
            (init (Table 1) flatProps)) = 1 \<and>
   0 \<in> listeners (run [SetRollupConfig (Some byA), AddEventListener,
                   Settle 0 (Built (TreeTable 2) treeProps), React 0]
                (init (Table 1) flatProps)) \<and>
   1 \<in> listeners (run [SetRollupConfig (Some byA), AddEventListener,
                   Settle 0 (Built (TreeTable 2) treeProps), React 0]
                (init (Table 1) flatProps))"
  by (simp add: state_defs eval_defs)

text \<open>C7, amended. While the proxy keeps at least one listener, the subscription follows
  a swap in two steps: from the moment a configuration change is issued until the
  callback of its transition has run the proxy is subscribed to no backing model, and
  when the slot is empty again after the swap it is subscribed to the active model and to
  no other. This holds at the end of every run of a proxy in which, from a state where
  it holds on, the last listener is never removed and no derivation fails, and in which
  no setter and no \<^verbatim>\<open>close\<close> is ever called between the settling of the promise in
  the slot and the run of its callback; what the subscription is otherwise is not
  covered.\<close>

theorem relay_follows_swap:
  "w = run acts (init t props) \<Longrightarrow> orderly acts (init t props) \<Longrightarrow> relay_ok w \<Longrightarrow>
     steady bs w \<Longrightarrow> relay_ok (run bs w)"
  by (simp add: relay_ok_run slot_invariant_run slot_invariant_init)

text \<open>With one listener: after the rollup is issued, and still after it has been
  answered, the handler is on no model; after a viewport change in between and the run
  of the callback it is on the new model alone.\<close>

theorem relay_follows_swap_witness:
  "relay_ok listening \<and> listeners listening = {0} \<and>
   modelPromise (run [SetRollupConfig (Some byA)] listening) = Some 0 \<and>
   listeners (run [SetRollupConfig (Some byA)] listening) = {} \<and>
   modelPromise (run [SetRollupConfig (Some byA), SetViewport 0 10 None,
                      Settle 0 (Built (TreeTable 2) treeProps)] listening) = Some 0 \<and>
   listeners (run [SetRollupConfig (Some byA), SetViewport 0 10 None,
                   Settle 0 (Built (TreeTable 2) treeProps)] listening) = {} \<and>
   modelPromise (run [SetRollupConfig (Some byA), SetViewport 0 10 None,
                      Settle 0 (Built (TreeTable 2) treeProps), React 0] listening) = None \<and>
   model (run [SetRollupConfig (Some byA), SetViewport 0 10 None,
               Settle 0 (Built (TreeTable 2) treeProps), React 0] listening) = 1 \<and>
   listeners (run [SetRollupConfig (Some byA), SetViewport 0 10 None,
                   Settle 0 (Built (TreeTable 2) treeProps), React 0] listening) = {1}"
proof -
  have ord: "orderly [AddEventListener] (init (Table 1) flatProps)" by simp
  have ok: "relay_ok listening" "listeners listening = {0}"
    by (simp_all add: state_defs relay_ok_def eval_defs)
  have s1: "steady [SetRollupConfig (Some byA)] listening"
    by (simp add: state_defs eval_defs)
  have s2: "steady [SetRollupConfig (Some byA), SetViewport 0 10 None,
                    Settle 0 (Built (TreeTable 2) treeProps)] listening"
    by (simp add: state_defs eval_defs)
  have s3: "steady [SetRollupConfig (Some byA), SetViewport 0 10 None,
                    Settle 0 (Built (TreeTable 2) treeProps), React 0] listening"
    by (simp add: state_defs eval_defs)
  have p1: "modelPromise (run [SetRollupConfig (Some byA)] listening) = Some 0"
    by (simp add: state_defs eval_defs)
  have p2: "modelPromise (run [SetRollupConfig (Some byA), SetViewport 0 10 None,
                      Settle 0 (Built (TreeTable 2) treeProps)] listening) = Some 0"
    by (simp add: state_defs eval_defs)
  have p3: "modelPromise (run [SetRollupConfig (Some byA), SetViewport 0 10 None,
                      Settle 0 (Built (TreeTable 2) treeProps), React 0] listening) = None"
    "model (run [SetRollupConfig (Some byA), SetViewport 0 10 None,
               Settle 0 (Built (TreeTable 2) treeProps), React 0] listening) = 1"
    by (simp_all add: state_defs eval_defs)
  have r1: "relay_ok (run [SetRollupConfig (Some byA)] listening)"
    using relay_follows_swap [OF listening_def ord ok(1) s1] .
  have r2: "relay_ok (run [SetRollupConfig (Some byA), SetViewport 0 10 None,
                      Settle 0 (Built (TreeTable 2) treeProps)] listening)"
    using relay_follows_swap [OF listening_def ord ok(1) s2] .
  have r3: "relay_ok (run [SetRollupConfig (Some byA), SetViewport 0 10 None,
                      Settle 0 (Built (TreeTable 2) treeProps), React 0] listening)"
    using relay_follows_swap [OF listening_def ord ok(1) s3] .
  from r1 p1 have l1: "listeners (run [SetRollupConfig (Some byA)] listening) = {}"
    unfolding relay_ok_def by simp
  from r2 p2 have l2: "listeners (run [SetRollupConfig (Some byA), SetViewport 0 10 None,
                   Settle 0 (Built (TreeTable 2) treeProps)] listening) = {}"
    unfolding relay_ok_def by simp
  from r3 p3 have l3: "listeners (run [SetRollupConfig (Some byA), SetViewport 0 10 None,
                   Settle 0 (Built (TreeTable 2) treeProps), React 0] listening) = {1}"
    unfolding relay_ok_def by simp
  show ?thesis by (intro conjI ok p1 p2 p3 l1 l2 l3)
qed

text \<open>C8. A rollup is set, cleared and set again without waiting. The second request
  resolves to the original model and is canceled by the third; when it settles, the
  disposal callback closes the original model, which is still the active one. Closing the
  proxy then closes the original model a second time.\<close>

theorem original_model_closed_twice:
  "originalModel (run [SetRollupConfig (Some byA), SetRollupConfig None,
                       SetRollupConfig (Some byA), Settle 1 (Built (Table 1) flatProps)]
                    (init (Table 1) flatProps)) = 0 \<and>
   model (run [SetRollupConfig (Some byA), SetRollupConfig None,
                       SetRollupConfig (Some byA), Settle 1 (Built (Table 1) flatProps)]
                    (init (Table 1) flatProps)) = 0 \<and>
   closeCalls (run [SetRollupConfig (Some byA), SetRollupConfig None,
                    SetRollupConfig (Some byA), Settle 1 (Built (Table 1) flatProps)]
                 (init (Table 1) flatProps)) 0 = 1 \<and>
   closeCalls (run [SetRollupConfig (Some byA), SetRollupConfig None,
                    SetRollupConfig (Some byA), Settle 1 (Built (Table 1) flatProps), Close]
                 (init (Table 1) flatProps)) 0 = 2"
  by (simp add: eval_defs)

text \<open>C9. On a model that does not pass \<^verbatim>\<open>isEditableGridModel\<close>, here the model
  of a partitioned table, \<^verbatim>\<open>setValueForCell\<close> and \<^verbatim>\<open>setValueForRanges\<close> return a
  promise rejected with "Model is not editable", and \<^verbatim>\<open>setValues\<close> returns a promise
  resolved with nothing.\<close>

theorem setValues_resolves_on_non_editable:
  "variant (activeModel (init (PartitionedTable 1) partitionedProps))
     = IrisGridPartitionedTableModel \<and>
   \<not> editable (activeModel (init (PartitionedTable 1) partitionedProps)) \<and>
   setValues (init (PartitionedTable 1) partitionedProps) = PromiseResolved \<and>
   setValueForCell (init (PartitionedTable 1) partitionedProps)
     = PromiseRejected ''Model is not editable'' \<and>
   setValueForRanges (init (PartitionedTable 1) partitionedProps)
     = PromiseRejected ''Model is not editable''"
  by (simp add: setValues_def setValueForCell_def setValueForRanges_def eval_defs)

text \<open>C10. \<^verbatim>\<open>isCustomColumnsAvailable\<close> is false whenever select distinct is
  available and its column list is non-empty, whatever the active model reports; in
  every other state it is what the active model reports.\<close>

theorem customColumns_disabled_by_selectDistinct:
  "isCustomColumnsAvailable w =
     (if isSelectDistinctAvailable w \<and> js_length (selectDistinctColumns w) > 0 then False
      else model_isCustomColumnsAvailable (activeModel w))"
  by (simp add: isCustomColumnsAvailable_def)

theorem customColumns_disabled_by_selectDistinct_witness:
  "model_isCustomColumnsAvailable (activeModel distinctA) \<and>
   \<not> isCustomColumnsAvailable distinctA \<and>
   isCustomColumnsAvailable oneRollup"
proof -
  have a: "model_isCustomColumnsAvailable (activeModel distinctA)"
    "isSelectDistinctAvailable distinctA" "js_length (selectDistinctColumns distinctA) > 0"
    by (simp_all add: state_defs eval_defs)
  have b: "model_isCustomColumnsAvailable (activeModel oneRollup)"
    "\<not> isSelectDistinctAvailable oneRollup"
    by (simp_all add: state_defs eval_defs)
  show ?thesis
    using a b customColumns_disabled_by_selectDistinct [of distinctA]
      customColumns_disabled_by_selectDistinct [of oneRollup]
    by simp
qed

section \<open>Further properties\<close>

text \<open>What the proxy answers when the active model lacks a capability. Without the
  expandable capability \<^verbatim>\<open>setRowExpanded\<close>, \<^verbatim>\<open>expandAll\<close> and
  \<^verbatim>\<open>collapseAll\<close> throw, each with its own message, and the three queries return
  false, false and 0. Without the editable capability the two queries return false and
  the empty string, and \<^verbatim>\<open>setValueForCell\<close> and \<^verbatim>\<open>setValueForRanges\<close> return
  a rejected promise. With the capability every one of them is handed to the active
  model.\<close>

theorem capability_unavailable_results:
  "(\<not> expandable (activeModel w) \<longrightarrow>
      setRowExpanded w = Thrown ''Function setRowExpanded does not exist on IrisGridTableModel'' \<and>
      expandAll w = Thrown ''Function expandAll does not exist on IrisGridTableModel'' \<and>
      collapseAll w = Thrown ''Function collapseAll does not exist on IrisGridTableModel'' \<and>
      isRowExpandable w = Returned (Bool False) \<and>
      isRowExpanded w = Returned (Bool False) \<and>
      depthForRow w = Returned (Num 0)) \<and>
   (\<not> editable (activeModel w) \<longrightarrow>
      isValidForCell w = Returned (Bool False) \<and>
      editValueForCell w = Returned (Str []) \<and>
      setValueForCell w = PromiseRejected ''Model is not editable'' \<and>
      setValueForRanges w = PromiseRejected ''Model is not editable'') \<and>
   (expandable (activeModel w) \<longrightarrow>
      setRowExpanded w = Delegated (model w) \<and> expandAll w = Delegated (model w) \<and>
      collapseAll w = Delegated (model w) \<and> isRowExpandable w = Delegated (model w) \<and>
      isRowExpanded w = Delegated (model w) \<and> depthForRow w = Delegated (model w)) \<and>
   (editable (activeModel w) \<longrightarrow>
      isValidForCell w = Delegated (model w) \<and> editValueForCell w = Delegated (model w) \<and>
      setValueForCell w = Delegated (model w) \<and> setValueForRanges w = Delegated (model w) \<and>
      setValues w = Delegated (model w))"
  by (simp add: setRowExpanded_def expandAll_def collapseAll_def isRowExpandable_def
      isRowExpanded_def depthForRow_def isValidForCell_def editValueForCell_def
      setValueForCell_def setValueForRanges_def setValues_def)

theorem capability_unavailable_results_witness:
  "setRowExpanded (init (Table 1) flatProps)
     = Thrown ''Function setRowExpanded does not exist on IrisGridTableModel'' \<and>
   depthForRow (init (Table 1) flatProps) = Returned (Num 0) \<and>
   editValueForCell (init (PartitionedTable 1) partitionedProps) = Returned (Str []) \<and>
   setRowExpanded (init (TreeTable 1) treeProps) = Delegated 0 \<and>
   setValues (init (Table 1) flatProps) = Delegated 0"
proof -
  have a: "\<not> expandable (activeModel (init (Table 1) flatProps))"
    "\<not> editable (activeModel (init (PartitionedTable 1) partitionedProps))"
    by (simp_all add: eval_defs)
  have b: "expandable (activeModel (init (TreeTable 1) treeProps))"
    "model (init (TreeTable 1) treeProps) = 0"
    by (simp_all add: eval_defs)
  have c: "editable (activeModel (init (Table 1) flatProps))"
    "model (init (Table 1) flatProps) = 0"
    by (simp_all add: eval_defs)
  show ?thesis
    using a b c
      capability_unavailable_results [of "init (Table 1) flatProps"]
      capability_unavailable_results [of "init (PartitionedTable 1) partitionedProps"]
      capability_unavailable_results [of "init (TreeTable 1) treeProps"]
    by simp
qed

text \<open>\<^verbatim>\<open>close\<close> closes the original model once, closes the active model once more
  exactly when it is another model, disposes of the model of a fulfilled promise in the
  slot that was not canceled before, closes no other model, and leaves no transition
  pending.\<close>

theorem close_closes_models:
  "closeCalls (close w) m =
     closeCalls w m + (if m = originalModel w then 1 else 0)
       + (if m = model w \<and> model w \<noteq> originalModel w then 1 else 0)
       + (case modelPromise w of
            None \<Rightarrow> 0
          | Some p \<Rightarrow>
              if \<not> hasCanceled (promises w p) \<and> wrapped (promises w p) = Fulfilled m
              then 1 else 0) \<and>
   (modelPromise w = Some p \<longrightarrow> \<not> pending (close w) p)"
  by (auto simp: close_def closeModel_def cancel_def pending_def
      Let_def split: option.splits wrapper_state.splits)

theorem close_closes_models_witness:
  "closeCalls (close (run [Settle 0 (Built (TreeTable 2) treeProps), React 0] oneRollup)) 0 = 1 \<and>
   closeCalls (close (run [Settle 0 (Built (TreeTable 2) treeProps), React 0] oneRollup)) 1 = 1 \<and>
   closeCalls (close (run [Settle 0 (Built (TreeTable 2) treeProps), React 0] oneRollup)) 2 = 0 \<and>
   \<not> pending (close oneRollup) 0"
proof -
  have a: "originalModel (run [Settle 0 (Built (TreeTable 2) treeProps), React 0] oneRollup) = 0"
    "model (run [Settle 0 (Built (TreeTable 2) treeProps), React 0] oneRollup) = 1"
    "closeCalls (run [Settle 0 (Built (TreeTable 2) treeProps), React 0] oneRollup) = (\<lambda>_. 0)"
    "modelPromise (run [Settle 0 (Built (TreeTable 2) treeProps), React 0] oneRollup) = None"
    by (simp_all add: state_defs eval_defs)
  have b: "modelPromise oneRollup = Some 0"
    by (simp add: state_defs eval_defs)
  show ?thesis
    using a b
      close_closes_models
        [of "run [Settle 0 (Built (TreeTable 2) treeProps), React 0] oneRollup" 0 0]
      close_closes_models
        [of "run [Settle 0 (Built (TreeTable 2) treeProps), React 0] oneRollup" 1 0]
      close_closes_models
        [of "run [Settle 0 (Built (TreeTable 2) treeProps), React 0] oneRollup" 2 0]
      close_closes_models [of oneRollup 0 0]
    by simp
qed

end
